theory Spec2Isabelle
  imports Complex_Main
begin

section \<open>Data model\<close>

text \<open>
  The values \<open>parrot-agent.ts\<close> reads and builds. JavaScript strings are modelled as
  \<^typ>\<open>string\<close>; a character outside ASCII is written as its UTF-8 bytes. A property
  that may be \<open>undefined\<close> at run time is an \<^typ>\<open>'a option\<close>.
\<close>

datatype js_error = TypeError

text \<open>The \<open>to\<close> field of an event: \<open>{ speakerUri?, serviceUrl? }\<close>.\<close>

record to_options =
  to_speakerUri :: "string option"
  to_serviceUrl :: "string option"

text \<open>A token of a feature; only \<open>token.value\<close> is read.\<close>

record token =
  tok_value :: "string option"

record feature =
  tokens :: "token list option"

text \<open>\<open>dialogEvent.features\<close> is a \<open>Map\<close> from feature names to features.\<close>

record dialog_event =
  features :: "(string \<rightharpoonup> feature) option"

text \<open>
  An inbound event: \<open>event.eventType\<close>, \<open>event.to\<close> and \<open>event.dialogEvent\<close>. The last
  one is \<open>None\<close> when the property is \<open>undefined\<close> on the object at run time.
\<close>

record event =
  eventType :: string
  ev_to :: "to_options option"
  dialogEvent :: "dialog_event option"

record sender =
  sender_speakerUri :: string
  sender_serviceUrl :: "string option"

text \<open>An envelope, over the type of its events.\<close>

record 'e envelope =
  schema_version :: string
  conversation_id :: string
  env_sender :: sender
  events :: "'e list"

text \<open>\<open>ManifestOptions\<close>, with the fields \<open>createParrotAgent\<close> fills in.\<close>

record identification =
  speakerUri :: string
  serviceUrl :: string
  organization :: string
  conversationalName :: string
  synopsis :: string

record capability =
  keyphrases :: "string list"
  descriptions :: "string list"

record ManifestOptions =
  identification :: identification
  capabilities :: "capability list"

text \<open>\<open>class ParrotAgent extends BotAgent\<close>: the constructor stores the manifest only.\<close>

record ParrotAgent =
  manifest :: ManifestOptions

text \<open>
  The getters \<open>this.speakerUri\<close> and \<open>this.serviceUrl\<close> of the protocol library's
  \<open>BotAgent\<close> read the identification of the manifest.
\<close>

definition this_speakerUri :: "ParrotAgent \<Rightarrow> string" where
  "this_speakerUri ag = speakerUri (identification (manifest ag))"

definition this_serviceUrl :: "ParrotAgent \<Rightarrow> string" where
  "this_serviceUrl ag = serviceUrl (identification (manifest ag))"

text \<open>
  \<open>manifest.toObject()\<close> of the protocol library: the serialized form of the manifest,
  a plain object with the same identification and capabilities.
\<close>

definition toObject :: "ManifestOptions \<Rightarrow> ManifestOptions" where
  "toObject m = m"

text \<open>
  The argument of the protocol library's \<open>createTextUtterance\<close>:
  \<open>{ speakerUri, text, to?, confidence? }\<close>. The utterance it returns is kept as the
  options it was built from.
\<close>

record text_utterance =
  utt_speakerUri :: string
  utt_text :: string
  utt_to :: "to_options option"
  utt_confidence :: "real option"

text \<open>The object literal pushed for \<open>getManifests\<close>.\<close>

record plain_event =
  pe_eventType :: string
  pe_to :: to_options
  pe_servicingManifests :: "ManifestOptions list"

datatype out_event = TextUtterance text_utterance | PlainEvent plain_event

definition createTextUtterance ::
  "string \<Rightarrow> string \<Rightarrow> to_options option \<Rightarrow> real option \<Rightarrow> out_event" where
  "createTextUtterance spk txt t conf =
     TextUtterance \<lparr>utt_speakerUri = spk, utt_text = txt, utt_to = t, utt_confidence = conf\<rparr>"

fun out_to :: "out_event \<Rightarrow> to_options option" where
  "out_to (TextUtterance u) = utt_to u"
| "out_to (PlainEvent p) = Some (pe_to p)"

text \<open>
  The protocol library's \<open>isUtteranceEvent\<close>, the predicate identifying utterance-kind
  events: the event type is \<open>utterance\<close>.
\<close>

definition isUtteranceEvent :: "event \<Rightarrow> bool" where
  "isUtteranceEvent ev \<longleftrightarrow> eventType ev = ''utterance''"

text \<open>What \<open>console.error\<close> has written: the message and the error, in order.\<close>

type_synonym console = "(string \<times> js_error) list"

section \<open>String constants\<close>

text \<open>The parrot emoji U+1F99C, as UTF-8.\<close>

definition parrot :: string where
  "parrot = [CHR 0xF0, CHR 0x9F, CHR 0xA6, CHR 0x9C]"

definition chirp_text :: string where
  "chirp_text = parrot @ '' *chirp* I can only repeat text messages!''"

definition confused_text :: string where
  "confused_text =
     parrot @ '' *confused chirp* Something went wrong while trying to repeat that!''"

section \<open>The primary implementation (\<open>src/parrot-agent.ts\<close>)\<close>

text \<open>
  \<open>tokens.map(token => token.value).join('')\<close>: \<open>join\<close> writes an \<open>undefined\<close> element
  as the empty string and puts the separator \<open>''\<close> between the elements.
\<close>

definition value_text :: "token \<Rightarrow> string" where
  "value_text t = (case tok_value t of None \<Rightarrow> [] | Some s \<Rightarrow> s)"

definition join_values :: "token list \<Rightarrow> string" where
  "join_values ts = concat (map value_text ts)"

text \<open>\<open>{ speakerUri: inEnvelope.sender.speakerUri }\<close>\<close>

definition reply_to :: "event envelope \<Rightarrow> to_options" where
  "reply_to inEnvelope =
     \<lparr>to_speakerUri = Some (sender_speakerUri (env_sender inEnvelope)),
      to_serviceUrl = None\<rparr>"

text \<open>The three utterances \<open>_handleParrotUtterance\<close> can return.\<close>

definition chirp_response :: "ParrotAgent \<Rightarrow> event envelope \<Rightarrow> out_event" where
  "chirp_response ag inEnvelope =
     createTextUtterance (this_speakerUri ag) chirp_text (Some (reply_to inEnvelope)) None"

definition parrot_response :: "ParrotAgent \<Rightarrow> event envelope \<Rightarrow> string \<Rightarrow> out_event" where
  "parrot_response ag inEnvelope originalText =
     createTextUtterance (this_speakerUri ag) (parrot @ '' '' @ originalText)
       (Some (reply_to inEnvelope)) (Some 1.0)"

definition error_response :: "ParrotAgent \<Rightarrow> event envelope \<Rightarrow> out_event" where
  "error_response ag inEnvelope =
     createTextUtterance (this_speakerUri ag) confused_text (Some (reply_to inEnvelope)) None"

text \<open>
  The body of the \<open>try\<close> block of \<open>_handleParrotUtterance\<close>. Reading \<open>.features\<close> of an
  \<open>undefined\<close> \<open>dialogEvent\<close> throws a \<open>TypeError\<close>; \<open>features?.get('text')\<close> is
  \<open>undefined\<close> when \<open>features\<close> is.
\<close>

definition handleParrotUtterance_try ::
  "ParrotAgent \<Rightarrow> event \<Rightarrow> event envelope \<Rightarrow> js_error + out_event" where
  "handleParrotUtterance_try ag ev inEnvelope =
     (case dialogEvent ev of
        None \<Rightarrow> Inl TypeError
      | Some de \<Rightarrow>
          (let textFeature = (case features de of None \<Rightarrow> None | Some m \<Rightarrow> m ''text'') in
           (case textFeature of
              None \<Rightarrow> Inr (chirp_response ag inEnvelope)
            | Some tf \<Rightarrow>
                (case tokens tf of
                   None \<Rightarrow> Inr (chirp_response ag inEnvelope)
                 | Some ts \<Rightarrow>
                     if length ts = 0 then Inr (chirp_response ag inEnvelope)
                     else Inr (parrot_response ag inEnvelope (join_values ts))))))"

text \<open>
  \<open>_handleParrotUtterance\<close>: the \<open>catch\<close> block logs the error and returns the error
  response. The result is a sum, as the promise of an \<open>async\<close> method may be rejected.
\<close>

definition handleParrotUtterance ::
  "ParrotAgent \<Rightarrow> event \<Rightarrow> event envelope \<Rightarrow> console \<Rightarrow> (js_error + out_event) \<times> console" where
  "handleParrotUtterance ag ev inEnvelope c =
     (case handleParrotUtterance_try ag ev inEnvelope of
        Inr r \<Rightarrow> (Inr r, c)
      | Inl err \<Rightarrow>
          (Inr (error_response ag inEnvelope),
           c @ [(''Error in parrot utterance handling:'', err)]))"

text \<open>\<open>addressedToMe\<close>, as computed at the head of the loop.\<close>

definition addressedToMe :: "ParrotAgent \<Rightarrow> event \<Rightarrow> bool" where
  "addressedToMe ag ev =
     (case ev_to ev of
        None \<Rightarrow> True
      | Some t \<Rightarrow> to_speakerUri t = Some (this_speakerUri ag)
                 \<or> to_serviceUrl t = Some (this_serviceUrl ag))"

definition publishManifests :: "ParrotAgent \<Rightarrow> event envelope \<Rightarrow> out_event" where
  "publishManifests ag inEnvelope =
     PlainEvent \<lparr>pe_eventType = ''publishManifests'',
                 pe_to = \<lparr>to_speakerUri = Some (sender_speakerUri (env_sender inEnvelope)),
                          to_serviceUrl = None\<rparr>,
                 pe_servicingManifests = [toObject (manifest ag)]\<rparr>"

text \<open>
  The \<open>for\<close> loop of \<open>processEnvelope\<close> over the remaining events, with
  \<open>responseEvents\<close> and the console as state. An utterance object is truthy, so
  \<open>if (responseEvent)\<close> always pushes. A rejected \<open>await\<close> leaves the loop.
\<close>

fun processEvents ::
  "ParrotAgent \<Rightarrow> event envelope \<Rightarrow> event list \<Rightarrow> out_event list \<Rightarrow> console
     \<Rightarrow> (js_error + out_event list) \<times> console" where
  "processEvents ag inEnvelope [] responseEvents c = (Inr responseEvents, c)"
| "processEvents ag inEnvelope (ev # rest) responseEvents c =
     (if addressedToMe ag ev \<and> isUtteranceEvent ev then
        (case handleParrotUtterance ag ev inEnvelope c of
           (Inl err, c') \<Rightarrow> (Inl err, c')
         | (Inr responseEvent, c') \<Rightarrow>
             processEvents ag inEnvelope rest (responseEvents @ [responseEvent]) c')
      else if addressedToMe ag ev \<and> eventType ev = ''getManifests'' then
        processEvents ag inEnvelope rest (responseEvents @ [publishManifests ag inEnvelope]) c
      else processEvents ag inEnvelope rest responseEvents c)"

definition processEnvelope ::
  "ParrotAgent \<Rightarrow> event envelope \<Rightarrow> console \<Rightarrow> (js_error + out_event envelope) \<times> console" where
  "processEnvelope ag inEnvelope c =
     (case processEvents ag inEnvelope (events inEnvelope) [] c of
        (Inl err, c') \<Rightarrow> (Inl err, c')
      | (Inr responseEvents, c') \<Rightarrow>
          (Inr \<lparr>schema_version = schema_version inEnvelope,
                conversation_id = conversation_id inEnvelope,
                env_sender = \<lparr>sender_speakerUri = this_speakerUri ag,
                              sender_serviceUrl = Some (this_serviceUrl ag)\<rparr>,
                events = responseEvents\<rparr>, c'))"

text \<open>
  \<open>createParrotAgent\<close>: the optional \<open>name\<close>, \<open>organization\<close> and \<open>description\<close> have
  defaults.
\<close>

record agent_options =
  opt_speakerUri :: string
  opt_serviceUrl :: string
  opt_name :: "string option"
  opt_organization :: "string option"
  opt_description :: "string option"

definition createParrotAgent :: "agent_options \<Rightarrow> ParrotAgent" where
  "createParrotAgent options =
     (let name = (case opt_name options of None \<Rightarrow> ''Parrot Agent'' | Some n \<Rightarrow> n);
          org = (case opt_organization options of None \<Rightarrow> ''OpenFloor Demo'' | Some g \<Rightarrow> g);
          description = (case opt_description options of
             None \<Rightarrow> ''A simple parrot agent that echoes back messages with a parrot emoji''
           | Some d \<Rightarrow> d)
      in \<lparr>manifest =
           \<lparr>identification =
              \<lparr>speakerUri = opt_speakerUri options,
               serviceUrl = opt_serviceUrl options,
               organization = org,
               conversationalName = name,
               synopsis = description\<rparr>,
            capabilities =
              [\<lparr>keyphrases = [''echo'', ''repeat'', ''parrot'', ''say''],
                descriptions =
                  [''Echoes back any text message with a parrot emoji'',
                   ''Repeats user input verbatim'',
                   ''Simple text mirroring functionality'']\<rparr>]\<rparr>\<rparr>)"

section \<open>The alternate implementation (\<open>unnamed/part_000\<close>)\<close>

text \<open>
  Here \<open>processEnvelope\<close> builds \<open>outEnvelope\<close> first and \<open>_handleParrotUtterance\<close>
  assigns \<open>[...outEnvelope.events, responseEvent]\<close> to its \<open>_events\<close> field, the field
  that the getter \<open>events\<close> of the library's envelope reads. The mutated envelope is passed
  through explicitly. The \<open>try\<close> block throws before it assigns, so
  the \<open>catch\<close> block sees the envelope as it was on entry.
\<close>

definition handleParrotUtterance_alt_try ::
  "ParrotAgent \<Rightarrow> event \<Rightarrow> event envelope \<Rightarrow> out_event envelope
     \<Rightarrow> js_error + out_event envelope" where
  "handleParrotUtterance_alt_try ag ev inEnvelope outEnvelope =
     (case dialogEvent ev of
        None \<Rightarrow> Inl TypeError
      | Some de \<Rightarrow>
          (let textFeature = (case features de of None \<Rightarrow> None | Some m \<Rightarrow> m ''text'') in
           (case textFeature of
              None \<Rightarrow>
                Inr (outEnvelope\<lparr>events :=
                       events outEnvelope @
                         [createTextUtterance (this_speakerUri ag) chirp_text
                            (Some (reply_to inEnvelope)) None]\<rparr>)
            | Some tf \<Rightarrow>
                (case tokens tf of
                   None \<Rightarrow>
                     Inr (outEnvelope\<lparr>events :=
                            events outEnvelope @
                              [createTextUtterance (this_speakerUri ag) chirp_text
                                 (Some (reply_to inEnvelope)) None]\<rparr>)
                 | Some ts \<Rightarrow>
                     if length ts = 0 then
                       Inr (outEnvelope\<lparr>events :=
                              events outEnvelope @
                                [createTextUtterance (this_speakerUri ag) chirp_text
                                   (Some (reply_to inEnvelope)) None]\<rparr>)
                     else
                       Inr (outEnvelope\<lparr>events :=
                              events outEnvelope @
                                [createTextUtterance (this_speakerUri ag)
                                   (parrot @ '' '' @ join_values ts)
                                   (Some (reply_to inEnvelope)) (Some 1.0)]\<rparr>)))))"

definition handleParrotUtterance_alt ::
  "ParrotAgent \<Rightarrow> event \<Rightarrow> event envelope \<Rightarrow> out_event envelope \<Rightarrow> console
     \<Rightarrow> (js_error + out_event envelope) \<times> console" where
  "handleParrotUtterance_alt ag ev inEnvelope outEnvelope c =
     (case handleParrotUtterance_alt_try ag ev inEnvelope outEnvelope of
        Inr out \<Rightarrow> (Inr out, c)
      | Inl err \<Rightarrow>
          (Inr (outEnvelope\<lparr>events :=
                  events outEnvelope @
                    [createTextUtterance (this_speakerUri ag) confused_text
                       (Some (reply_to inEnvelope)) None]\<rparr>),
           c @ [(''Error in parrot utterance handling:'', err)]))"

fun processEvents_alt ::
  "ParrotAgent \<Rightarrow> event envelope \<Rightarrow> event list \<Rightarrow> out_event envelope \<Rightarrow> console
     \<Rightarrow> (js_error + out_event envelope) \<times> console" where
  "processEvents_alt ag inEnvelope [] outEnvelope c = (Inr outEnvelope, c)"
| "processEvents_alt ag inEnvelope (ev # rest) outEnvelope c =
     (if addressedToMe ag ev \<and> isUtteranceEvent ev then
        (case handleParrotUtterance_alt ag ev inEnvelope outEnvelope c of
           (Inl err, c') \<Rightarrow> (Inl err, c')
         | (Inr outEnvelope', c') \<Rightarrow> processEvents_alt ag inEnvelope rest outEnvelope' c')
      else processEvents_alt ag inEnvelope rest outEnvelope c)"

definition processEnvelope_alt ::
  "ParrotAgent \<Rightarrow> event envelope \<Rightarrow> console \<Rightarrow> (js_error + out_event envelope) \<times> console" where
  "processEnvelope_alt ag inEnvelope c =
     processEvents_alt ag inEnvelope (events inEnvelope)
       \<lparr>schema_version = schema_version inEnvelope,
        conversation_id = conversation_id inEnvelope,
        env_sender = \<lparr>sender_speakerUri = this_speakerUri ag,
                      sender_serviceUrl = Some (this_serviceUrl ag)\<rparr>,
        events = []\<rparr> c"

section \<open>One iteration of the loop\<close>

text \<open>
  What \<open>_handleParrotUtterance\<close> resolves to and what it logs, and what one iteration of
  the loop of \<open>processEnvelope\<close> pushes and logs for an event.
\<close>

definition utterance_reply :: "ParrotAgent \<Rightarrow> event \<Rightarrow> event envelope \<Rightarrow> out_event" where
  "utterance_reply ag ev inEnvelope =
     (case handleParrotUtterance_try ag ev inEnvelope of
        Inr r \<Rightarrow> r
      | Inl err \<Rightarrow> error_response ag inEnvelope)"

definition utterance_log :: "ParrotAgent \<Rightarrow> event \<Rightarrow> event envelope \<Rightarrow> console" where
  "utterance_log ag ev inEnvelope =
     (case handleParrotUtterance_try ag ev inEnvelope of
        Inr r \<Rightarrow> []
      | Inl err \<Rightarrow> [(''Error in parrot utterance handling:'', err)])"

definition eventResponse :: "ParrotAgent \<Rightarrow> event envelope \<Rightarrow> event \<Rightarrow> out_event list" where
  "eventResponse ag inEnvelope ev =
     (if addressedToMe ag ev \<and> isUtteranceEvent ev then [utterance_reply ag ev inEnvelope]
      else if addressedToMe ag ev \<and> eventType ev = ''getManifests''
        then [publishManifests ag inEnvelope]
      else [])"

definition eventLog :: "ParrotAgent \<Rightarrow> event envelope \<Rightarrow> event \<Rightarrow> console" where
  "eventLog ag inEnvelope ev =
     (if addressedToMe ag ev \<and> isUtteranceEvent ev then utterance_log ag ev inEnvelope
      else [])"

section \<open>Sample values\<close>

definition polly :: ParrotAgent where
  "polly = createParrotAgent
     \<lparr>opt_speakerUri = ''tag:openfloor-demo.com,2025:parrot-agent'',
      opt_serviceUrl = ''https://parrot.example/'',
      opt_name = Some ''Polly the Parrot'',
      opt_organization = Some ''OpenFloor Demo Corp'',
      opt_description = Some ''A friendly parrot that repeats everything you say!''\<rparr>"

definition text_event :: "to_options option \<Rightarrow> string list \<Rightarrow> event" where
  "text_event t strs =
     \<lparr>eventType = ''utterance'', ev_to = t,
      dialogEvent = Some \<lparr>features =
        Some [''text'' \<mapsto> \<lparr>tokens = Some (map (\<lambda>s. \<lparr>tok_value = Some s\<rparr>) strs)\<rparr>]\<rparr>\<rparr>"

definition bare_event :: "string \<Rightarrow> to_options option \<Rightarrow> event" where
  "bare_event ty t = \<lparr>eventType = ty, ev_to = t, dialogEvent = None\<rparr>"

definition no_text_event :: event where
  "no_text_event =
     \<lparr>eventType = ''utterance'', ev_to = None,
      dialogEvent = Some \<lparr>features = Some Map.empty\<rparr>\<rparr>"

definition user_envelope :: "event list \<Rightarrow> event envelope" where
  "user_envelope es =
     \<lparr>schema_version = ''1.0.0'', conversation_id = ''conv-1'',
      env_sender = \<lparr>sender_speakerUri = ''tag:user.example,2025:alice'',
                    sender_serviceUrl = Some ''https://user.example/''\<rparr>,
      events = es\<rparr>"

definition to_alice :: to_options where
  "to_alice = \<lparr>to_speakerUri = Some ''tag:user.example,2025:alice'', to_serviceUrl = None\<rparr>"

definition polly_sender :: sender where
  "polly_sender = \<lparr>sender_speakerUri = ''tag:openfloor-demo.com,2025:parrot-agent'',
                   sender_serviceUrl = Some ''https://parrot.example/''\<rparr>"

definition say :: "string \<Rightarrow> real option \<Rightarrow> out_event" where
  "say txt conf =
     TextUtterance \<lparr>utt_speakerUri = ''tag:openfloor-demo.com,2025:parrot-agent'',
                    utt_text = txt, utt_to = Some to_alice, utt_confidence = conf\<rparr>"

definition polly_envelope :: "out_event list \<Rightarrow> out_event envelope" where
  "polly_envelope rs =
     \<lparr>schema_version = ''1.0.0'', conversation_id = ''conv-1'',
      env_sender = polly_sender, events = rs\<rparr>"

definition polly_manifests :: out_event where
  "polly_manifests =
     PlainEvent \<lparr>pe_eventType = ''publishManifests'', pe_to = to_alice,
                 pe_servicingManifests = [manifest polly]\<rparr>"

definition mixed_events :: "event list" where
  "mixed_events =
     [text_event None [''hi''], no_text_event, bare_event ''utterance'' None,
      bare_event ''getManifests'' None]"

definition to_polly_uri :: to_options where
  "to_polly_uri =
     \<lparr>to_speakerUri = Some ''tag:openfloor-demo.com,2025:parrot-agent'', to_serviceUrl = None\<rparr>"

definition to_polly_url :: to_options where
  "to_polly_url = \<lparr>to_speakerUri = None, to_serviceUrl = Some ''https://parrot.example/''\<rparr>"

section \<open>The loop, event by event\<close>

lemma handleParrotUtterance_eq:
  "handleParrotUtterance ag ev inEnvelope c =
     (Inr (utterance_reply ag ev inEnvelope), c @ utterance_log ag ev inEnvelope)"
  by (simp add: handleParrotUtterance_def utterance_reply_def utterance_log_def
      split: sum.split)

lemma processEvents_eq:
  "processEvents ag inEnvelope es acc c =
     (Inr (acc @ concat (map (eventResponse ag inEnvelope) es)),
      c @ concat (map (eventLog ag inEnvelope) es))"
proof (induction es arbitrary: acc c)
  case Nil
  show ?case by simp
next
  case (Cons ev es)
  show ?case
    by (simp add: Cons.IH handleParrotUtterance_eq eventResponse_def eventLog_def)
qed

lemma processEnvelope_eq:
  "processEnvelope ag inEnvelope c =
     (Inr \<lparr>schema_version = schema_version inEnvelope,
           conversation_id = conversation_id inEnvelope,
           env_sender = \<lparr>sender_speakerUri = this_speakerUri ag,
                         sender_serviceUrl = Some (this_serviceUrl ag)\<rparr>,
           events = concat (map (eventResponse ag inEnvelope) (events inEnvelope))\<rparr>,
      c @ concat (map (eventLog ag inEnvelope) (events inEnvelope)))"
  by (simp add: processEnvelope_def processEvents_eq)

lemma handleParrotUtterance_alt_eq:
  "handleParrotUtterance_alt ag ev inEnvelope outEnvelope c =
     (Inr (outEnvelope\<lparr>events := events outEnvelope @ [utterance_reply ag ev inEnvelope]\<rparr>),
      c @ utterance_log ag ev inEnvelope)"
  by (simp add: handleParrotUtterance_alt_def handleParrotUtterance_alt_try_def
      utterance_reply_def utterance_log_def handleParrotUtterance_try_def
      chirp_response_def parrot_response_def error_response_def Let_def
      split: option.split)

lemma processEvents_alt_eq:
  "processEvents_alt ag inEnvelope es outEnvelope c =
     (Inr (outEnvelope\<lparr>events := events outEnvelope @
             concat (map (\<lambda>ev. if isUtteranceEvent ev then eventResponse ag inEnvelope ev else [])
               es)\<rparr>),
      c @ concat (map (eventLog ag inEnvelope) es))"
proof (induction es arbitrary: outEnvelope c)
  case Nil
  show ?case by simp
next
  case (Cons ev es)
  show ?case
    by (simp add: Cons.IH handleParrotUtterance_alt_eq eventResponse_def eventLog_def)
qed

lemma reply_to_events_update:
  "reply_to (inEnvelope\<lparr>events := es\<rparr>) = reply_to inEnvelope"
  by (simp add: reply_to_def)

lemma try_events_update:
  "handleParrotUtterance_try ag ev (inEnvelope\<lparr>events := es\<rparr>) =
     handleParrotUtterance_try ag ev inEnvelope"
  by (simp add: handleParrotUtterance_try_def chirp_response_def parrot_response_def
      reply_to_events_update Let_def split: option.split)

lemma eventResponse_events_update:
  "eventResponse ag (inEnvelope\<lparr>events := es\<rparr>) = eventResponse ag inEnvelope"
  by (rule ext)
    (simp add: eventResponse_def utterance_reply_def try_events_update error_response_def
      reply_to_events_update publishManifests_def split: sum.split)

lemma eventLog_events_update:
  "eventLog ag (inEnvelope\<lparr>events := es\<rparr>) = eventLog ag inEnvelope"
  by (rule ext) (simp add: eventLog_def utterance_log_def try_events_update)

lemma utterance_reply_to:
  "out_to (utterance_reply ag ev inEnvelope) = Some (reply_to inEnvelope)"
  by (simp add: utterance_reply_def handleParrotUtterance_try_def chirp_response_def
      parrot_response_def error_response_def createTextUtterance_def Let_def
      split: option.split)

lemma eventResponse_to:
  "r \<in> set (eventResponse ag inEnvelope ev) \<Longrightarrow> out_to r = Some (reply_to inEnvelope)"
  by (auto simp: eventResponse_def utterance_reply_to publishManifests_def reply_to_def
      split: if_splits)

lemma utterance_reply_is_utterance:
  "\<exists>u. utterance_reply ag ev inEnvelope = TextUtterance u"
  by (simp add: utterance_reply_def handleParrotUtterance_try_def chirp_response_def
      parrot_response_def error_response_def createTextUtterance_def Let_def
      split: option.split)

lemma addressedToMe_iff:
  "addressedToMe ag ev \<longleftrightarrow>
     ev_to ev = None
     \<or> (\<exists>t. ev_to ev = Some t
           \<and> (to_speakerUri t = Some (this_speakerUri ag)
               \<or> to_serviceUrl t = Some (this_serviceUrl ag)))"
  by (cases "ev_to ev") (auto simp: addressedToMe_def)

lemma single_utterance_events:
  assumes "isUtteranceEvent ev"
  shows "fst (processEnvelope ag (inEnvelope\<lparr>events := [ev]\<rparr>) c) =
           Inr \<lparr>schema_version = schema_version inEnvelope,
                conversation_id = conversation_id inEnvelope,
                env_sender = \<lparr>sender_speakerUri = this_speakerUri ag,
                              sender_serviceUrl = Some (this_serviceUrl ag)\<rparr>,
                events = (if addressedToMe ag ev then [utterance_reply ag ev inEnvelope]
                          else [])\<rparr>"
  using assms
  by (simp add: processEnvelope_eq eventResponse_events_update eventResponse_def)

lemma single_getManifests_events:
  assumes "eventType ev = ''getManifests''"
  shows "fst (processEnvelope ag (inEnvelope\<lparr>events := [ev]\<rparr>) c) =
           Inr \<lparr>schema_version = schema_version inEnvelope,
                conversation_id = conversation_id inEnvelope,
                env_sender = \<lparr>sender_speakerUri = this_speakerUri ag,
                              sender_serviceUrl = Some (this_serviceUrl ag)\<rparr>,
                events = (if addressedToMe ag ev then [publishManifests ag inEnvelope]
                          else [])\<rparr>"
  using assms
  by (simp add: processEnvelope_eq eventResponse_events_update eventResponse_def
      isUtteranceEvent_def)

lemmas sample_defs =
  polly_def createParrotAgent_def this_speakerUri_def this_serviceUrl_def text_event_def
  bare_event_def no_text_event_def user_envelope_def to_alice_def polly_sender_def say_def

section \<open>The echo transform\<close>

text \<open>
  C1. For an utterance event whose dialog payload has a \<open>text\<close> feature with at least
  one token, \<open>_handleParrotUtterance\<close> returns an utterance whose text is the parrot
  emoji, a space and the values of all tokens concatenated in order with no separator
  (a token without a value contributes the empty string, as \<open>join\<close> writes it), with
  confidence 1.0, and logs nothing; when the event is addressed to the agent, the loop of
  \<open>processEnvelope\<close> appends exactly this utterance.
\<close>

theorem echo_text_and_confidence:
  assumes "dialogEvent ev = Some de" and "features de = Some m"
    and "m ''text'' = Some tf" and "tokens tf = Some ts" and "ts \<noteq> []"
  shows "handleParrotUtterance ag ev inEnvelope c =
           (Inr (TextUtterance
              \<lparr>utt_speakerUri = this_speakerUri ag,
               utt_text = parrot @ '' '' @ concat (map value_text ts),
               utt_to = Some (reply_to inEnvelope),
               utt_confidence = Some 1.0\<rparr>), c)
         \<and> (addressedToMe ag ev \<and> isUtteranceEvent ev \<longrightarrow>
              processEvents ag inEnvelope (ev # rest) acc c =
                processEvents ag inEnvelope rest
                  (acc @ [TextUtterance
                     \<lparr>utt_speakerUri = this_speakerUri ag,
                      utt_text = parrot @ '' '' @ concat (map value_text ts),
                      utt_to = Some (reply_to inEnvelope),
                      utt_confidence = Some 1.0\<rparr>]) c)"
  using assms
  by (simp add: handleParrotUtterance_def handleParrotUtterance_try_def
      parrot_response_def createTextUtterance_def join_values_def)

theorem echo_text_and_confidence_witness:
  "handleParrotUtterance polly (text_event None [''Hello, '', ''world!'']) (user_envelope []) [] =
     (Inr (say (parrot @ '' Hello, world!'') (Some 1)), [])
   \<and> processEvents polly (user_envelope []) [text_event None [''Hello, '', ''world!'']] [] [] =
       (Inr [say (parrot @ '' Hello, world!'') (Some 1)], [])"
  using echo_text_and_confidence [where ev = "text_event None [''Hello, '', ''world!'']"
      and de = "\<lparr>features = Some [''text'' \<mapsto> \<lparr>tokens = Some [\<lparr>tok_value = Some ''Hello, ''\<rparr>, \<lparr>tok_value = Some ''world!''\<rparr>]\<rparr>]\<rparr>"
      and m = "[''text'' \<mapsto> \<lparr>tokens = Some [\<lparr>tok_value = Some ''Hello, ''\<rparr>, \<lparr>tok_value = Some ''world!''\<rparr>]\<rparr>]"
      and tf = "\<lparr>tokens = Some [\<lparr>tok_value = Some ''Hello, ''\<rparr>, \<lparr>tok_value = Some ''world!''\<rparr>]\<rparr>"
      and ts = "[\<lparr>tok_value = Some ''Hello, ''\<rparr>, \<lparr>tok_value = Some ''world!''\<rparr>]"
      and ag = polly and inEnvelope = "user_envelope []" and c = "[]" and rest = "[]"
      and acc = "[]"]
  by (simp add: sample_defs reply_to_def value_text_def addressedToMe_def
      isUtteranceEvent_def)

section \<open>Addressing\<close>

text \<open>
  C2. \<open>processEnvelope\<close> takes an event as addressed to the agent exactly when the event
  has no \<open>to\<close>, or \<open>to.speakerUri\<close> is the agent's speaker URI, or \<open>to.serviceUrl\<close> is the
  agent's service URL, and it acts on the event accordingly. An event that is not
  addressed to the agent changes neither the returned envelope nor the console, wherever
  it stands among the events, and the call still returns an envelope. An utterance event
  without \<open>to\<close>, alone in an envelope, is answered by one utterance. An utterance event
  alone in an envelope is answered by one utterance exactly when one of the three
  conditions holds, and by no event exactly when it has a \<open>to\<close> that names neither the
  agent's speaker URI nor its service URL; a \<open>getManifests\<close> event alone in an envelope
  is answered by one event exactly when one of the three conditions holds. An addressed
  utterance event standing anywhere among the events is answered by one utterance,
  placed between the answers to the events before it and the answers to those after it.
\<close>

theorem addressing_rule:
  "(addressedToMe ag ev \<longleftrightarrow>
      ev_to ev = None
      \<or> (\<exists>t. ev_to ev = Some t \<and> to_speakerUri t = Some (this_speakerUri ag))
      \<or> (\<exists>t. ev_to ev = Some t \<and> to_serviceUrl t = Some (this_serviceUrl ag)))
   \<and> (\<not> addressedToMe ag ev \<longrightarrow>
        processEnvelope ag (inEnvelope\<lparr>events := before @ ev # after\<rparr>) c =
          processEnvelope ag (inEnvelope\<lparr>events := before @ after\<rparr>) c
        \<and> (\<exists>out. fst (processEnvelope ag (inEnvelope\<lparr>events := before @ ev # after\<rparr>) c)
              = Inr out))
   \<and> (ev_to ev = None \<and> isUtteranceEvent ev \<longrightarrow>
        (\<exists>out u. fst (processEnvelope ag (inEnvelope\<lparr>events := [ev]\<rparr>) c) = Inr out
           \<and> events out = [TextUtterance u]))
   \<and> (isUtteranceEvent ev \<longrightarrow>
        ((\<exists>out u. fst (processEnvelope ag (inEnvelope\<lparr>events := [ev]\<rparr>) c) = Inr out
            \<and> events out = [TextUtterance u])
         \<longleftrightarrow> ev_to ev = None
             \<or> (\<exists>t. ev_to ev = Some t
                   \<and> (to_speakerUri t = Some (this_speakerUri ag)
                       \<or> to_serviceUrl t = Some (this_serviceUrl ag))))
        \<and> ((\<exists>out. fst (processEnvelope ag (inEnvelope\<lparr>events := [ev]\<rparr>) c) = Inr out
              \<and> events out = [])
           \<longleftrightarrow> (\<exists>t. ev_to ev = Some t
                   \<and> to_speakerUri t \<noteq> Some (this_speakerUri ag)
                   \<and> to_serviceUrl t \<noteq> Some (this_serviceUrl ag))))
   \<and> (eventType ev = ''getManifests'' \<longrightarrow>
        ((\<exists>out p. fst (processEnvelope ag (inEnvelope\<lparr>events := [ev]\<rparr>) c) = Inr out
            \<and> events out = [PlainEvent p])
         \<longleftrightarrow> ev_to ev = None
             \<or> (\<exists>t. ev_to ev = Some t
                   \<and> (to_speakerUri t = Some (this_speakerUri ag)
                       \<or> to_serviceUrl t = Some (this_serviceUrl ag)))))
   \<and> (addressedToMe ag ev \<and> isUtteranceEvent ev \<longrightarrow>
        (\<exists>o1 o2 o12 u.
           fst (processEnvelope ag (inEnvelope\<lparr>events := before\<rparr>) c) = Inr o1
           \<and> fst (processEnvelope ag (inEnvelope\<lparr>events := after\<rparr>) c) = Inr o2
           \<and> fst (processEnvelope ag (inEnvelope\<lparr>events := before @ ev # after\<rparr>) c) = Inr o12
           \<and> events o12 = events o1 @ TextUtterance u # events o2))"
proof (intro conjI impI)
  show "addressedToMe ag ev \<longleftrightarrow>
      ev_to ev = None
      \<or> (\<exists>t. ev_to ev = Some t \<and> to_speakerUri t = Some (this_speakerUri ag))
      \<or> (\<exists>t. ev_to ev = Some t \<and> to_serviceUrl t = Some (this_serviceUrl ag))"
    by (cases "ev_to ev") (auto simp: addressedToMe_def)
next
  assume "\<not> addressedToMe ag ev"
  then have "eventResponse ag inEnvelope ev = []" and "eventLog ag inEnvelope ev = []"
    by (simp_all add: eventResponse_def eventLog_def)
  then show "processEnvelope ag (inEnvelope\<lparr>events := before @ ev # after\<rparr>) c =
          processEnvelope ag (inEnvelope\<lparr>events := before @ after\<rparr>) c"
    by (simp add: processEnvelope_eq eventResponse_events_update eventLog_events_update)
next
  show "\<exists>out. fst (processEnvelope ag (inEnvelope\<lparr>events := before @ ev # after\<rparr>) c) = Inr out"
    by (simp add: processEnvelope_eq)
next
  assume "ev_to ev = None \<and> isUtteranceEvent ev"
  then have "isUtteranceEvent ev" and "addressedToMe ag ev"
    by (simp_all add: addressedToMe_def)
  then show "\<exists>out u. fst (processEnvelope ag (inEnvelope\<lparr>events := [ev]\<rparr>) c) = Inr out
           \<and> events out = [TextUtterance u]"
    using utterance_reply_is_utterance [of ag ev inEnvelope]
    by (auto simp: single_utterance_events)
next
  assume utt: "isUtteranceEvent ev"
  show "(\<exists>out u. fst (processEnvelope ag (inEnvelope\<lparr>events := [ev]\<rparr>) c) = Inr out
            \<and> events out = [TextUtterance u])
         \<longleftrightarrow> ev_to ev = None
             \<or> (\<exists>t. ev_to ev = Some t
                   \<and> (to_speakerUri t = Some (this_speakerUri ag)
                       \<or> to_serviceUrl t = Some (this_serviceUrl ag)))"
    unfolding addressedToMe_iff [symmetric]
    using utterance_reply_is_utterance [of ag ev inEnvelope]
    by (auto simp: single_utterance_events [OF utt])
next
  assume utt: "isUtteranceEvent ev"
  have "(\<exists>t. ev_to ev = Some t
                   \<and> to_speakerUri t \<noteq> Some (this_speakerUri ag)
                   \<and> to_serviceUrl t \<noteq> Some (this_serviceUrl ag))
        \<longleftrightarrow> \<not> addressedToMe ag ev"
    by (cases "ev_to ev") (auto simp: addressedToMe_def)
  then show "(\<exists>out. fst (processEnvelope ag (inEnvelope\<lparr>events := [ev]\<rparr>) c) = Inr out
              \<and> events out = [])
           \<longleftrightarrow> (\<exists>t. ev_to ev = Some t
                   \<and> to_speakerUri t \<noteq> Some (this_speakerUri ag)
                   \<and> to_serviceUrl t \<noteq> Some (this_serviceUrl ag))"
    by (auto simp: single_utterance_events [OF utt])
next
  assume gm: "eventType ev = ''getManifests''"
  show "(\<exists>out p. fst (processEnvelope ag (inEnvelope\<lparr>events := [ev]\<rparr>) c) = Inr out
            \<and> events out = [PlainEvent p])
         \<longleftrightarrow> ev_to ev = None
             \<or> (\<exists>t. ev_to ev = Some t
                   \<and> (to_speakerUri t = Some (this_speakerUri ag)
                       \<or> to_serviceUrl t = Some (this_serviceUrl ag)))"
    unfolding addressedToMe_iff [symmetric]
    by (auto simp: single_getManifests_events [OF gm] publishManifests_def)
next
  assume "addressedToMe ag ev \<and> isUtteranceEvent ev"
  then have "eventResponse ag inEnvelope ev = [utterance_reply ag ev inEnvelope]"
    by (simp add: eventResponse_def)
  then show "\<exists>o1 o2 o12 u.
           fst (processEnvelope ag (inEnvelope\<lparr>events := before\<rparr>) c) = Inr o1
           \<and> fst (processEnvelope ag (inEnvelope\<lparr>events := after\<rparr>) c) = Inr o2
           \<and> fst (processEnvelope ag (inEnvelope\<lparr>events := before @ ev # after\<rparr>) c) = Inr o12
           \<and> events o12 = events o1 @ TextUtterance u # events o2"
    using utterance_reply_is_utterance [of ag ev inEnvelope]
    by (auto simp: processEnvelope_eq eventResponse_events_update)
qed

theorem addressing_rule_witness:
  "\<not> addressedToMe polly (text_event (Some to_alice) [''hi''])
   \<and> fst (processEnvelope polly (user_envelope [text_event (Some to_alice) [''hi'']]) []) =
       Inr \<lparr>schema_version = ''1.0.0'', conversation_id = ''conv-1'',
            env_sender = polly_sender, events = []\<rparr>
   \<and> (\<exists>out u. fst (processEnvelope polly (user_envelope [text_event None [''hi'']]) []) = Inr out
         \<and> events out = [TextUtterance u])
   \<and> fst (processEnvelope polly (user_envelope [text_event (Some to_polly_uri) [''hi'']]) []) =
       Inr (polly_envelope [say (parrot @ '' hi'') (Some 1)])
   \<and> fst (processEnvelope polly (user_envelope [text_event (Some to_polly_url) [''hi'']]) []) =
       Inr (polly_envelope [say (parrot @ '' hi'') (Some 1)])
   \<and> fst (processEnvelope polly
        (user_envelope [bare_event ''getManifests'' (Some to_polly_uri)]) []) =
       Inr (polly_envelope [polly_manifests])
   \<and> fst (processEnvelope polly
        (user_envelope [bare_event ''getManifests'' (Some to_alice)]) []) =
       Inr (polly_envelope [])"
proof -
  note run_defs = sample_defs polly_envelope_def polly_manifests_def to_polly_uri_def
    to_polly_url_def processEnvelope_def addressedToMe_def isUtteranceEvent_def
    handleParrotUtterance_def handleParrotUtterance_try_def parrot_response_def
    createTextUtterance_def join_values_def value_text_def reply_to_def
    publishManifests_def toObject_def
  have uri: "fst (processEnvelope polly
        (user_envelope [text_event (Some to_polly_uri) [''hi'']]) []) =
       Inr (polly_envelope [say (parrot @ '' hi'') (Some 1)])"
    by (simp add: run_defs)
  have url: "fst (processEnvelope polly
        (user_envelope [text_event (Some to_polly_url) [''hi'']]) []) =
       Inr (polly_envelope [say (parrot @ '' hi'') (Some 1)])"
    by (simp add: run_defs)
  have gm: "fst (processEnvelope polly
        (user_envelope [bare_event ''getManifests'' (Some to_polly_uri)]) []) =
       Inr (polly_envelope [polly_manifests])"
    by (simp add: run_defs)
  have gm_other: "fst (processEnvelope polly
        (user_envelope [bare_event ''getManifests'' (Some to_alice)]) []) =
       Inr (polly_envelope [])"
    by (simp add: run_defs)
  show ?thesis
    using addressing_rule [where ag = polly and ev = "text_event (Some to_alice) [''hi'']"
        and inEnvelope = "user_envelope []" and before = "[]" and after = "[]" and c = "[]"]
      addressing_rule [where ag = polly and ev = "text_event None [''hi'']"
        and inEnvelope = "user_envelope []" and before = "[]" and after = "[]" and c = "[]"]
      addressing_rule [where ag = polly and ev = "text_event (Some to_polly_uri) [''hi'']"
        and inEnvelope = "user_envelope []" and before = "[]" and after = "[]" and c = "[]"]
      addressing_rule [where ag = polly and ev = "text_event (Some to_polly_url) [''hi'']"
        and inEnvelope = "user_envelope []" and before = "[]" and after = "[]" and c = "[]"]
      addressing_rule [where ag = polly and ev = "bare_event ''getManifests'' (Some to_polly_uri)"
        and inEnvelope = "user_envelope []" and before = "[]" and after = "[]" and c = "[]"]
      uri url gm gm_other
    by (simp add: sample_defs addressedToMe_def isUtteranceEvent_def processEnvelope_def)
qed

text \<open>
  C6. For an utterance event whose dialog payload has no \<open>text\<close> feature (no features at
  all, or no entry \<open>text\<close>), or whose text feature has no tokens (none, or an empty
  sequence), \<open>_handleParrotUtterance\<close> returns an utterance addressed to the speaker URI
  of the inbound sender, with the fixed chirp text and no confidence, and logs nothing;
  when the event is addressed to the agent, the loop appends exactly this utterance.
\<close>

theorem missing_text_fallback:
  assumes "dialogEvent ev = Some de"
    and "features de = None
         \<or> (\<exists>m. features de = Some m
               \<and> (m ''text'' = None
                   \<or> (\<exists>tf. m ''text'' = Some tf
                         \<and> (tokens tf = None \<or> tokens tf = Some []))))"
  shows "handleParrotUtterance ag ev inEnvelope c =
           (Inr (TextUtterance
              \<lparr>utt_speakerUri = this_speakerUri ag, utt_text = chirp_text,
               utt_to = Some (reply_to inEnvelope), utt_confidence = None\<rparr>), c)
         \<and> (addressedToMe ag ev \<and> isUtteranceEvent ev \<longrightarrow>
              processEvents ag inEnvelope (ev # rest) acc c =
                processEvents ag inEnvelope rest
                  (acc @ [TextUtterance
                     \<lparr>utt_speakerUri = this_speakerUri ag, utt_text = chirp_text,
                      utt_to = Some (reply_to inEnvelope), utt_confidence = None\<rparr>]) c)"
  using assms
  by (auto simp: handleParrotUtterance_def handleParrotUtterance_try_def
      chirp_response_def createTextUtterance_def)

theorem missing_text_fallback_witness:
  "handleParrotUtterance polly no_text_event (user_envelope []) [] =
     (Inr (say chirp_text None), [])
   \<and> handleParrotUtterance polly (text_event None []) (user_envelope []) [] =
     (Inr (say chirp_text None), [])"
  using missing_text_fallback [where ag = polly and ev = no_text_event
      and de = "\<lparr>features = Some Map.empty\<rparr>"
      and inEnvelope = "user_envelope []" and c = "[]" and rest = "[]" and acc = "[]"]
    missing_text_fallback [where ag = polly and ev = "text_event None []"
      and de = "\<lparr>features = Some [''text'' \<mapsto> \<lparr>tokens = Some []\<rparr>]\<rparr>"
      and inEnvelope = "user_envelope []" and c = "[]" and rest = "[]" and acc = "[]"]
  by (simp add: sample_defs reply_to_def)

section \<open>The outbound envelope\<close>

text \<open>
  C3. \<open>processEnvelope\<close> returns one envelope: schema version and conversation id are
  those of the inbound envelope, the sender is the agent's speaker URI and service URL,
  and the events are what the inbound events gave rise to, in the order of the inbound
  events. Each inbound event gives at most one outbound event, the events answering
  \<open>es1 @ es2\<close> are those answering \<open>es1\<close> followed by those answering \<open>es2\<close>, and an
  inbound envelope without events yields an envelope without events.
\<close>

theorem outbound_envelope:
  "fst (processEnvelope ag inEnvelope c) =
     Inr \<lparr>schema_version = schema_version inEnvelope,
          conversation_id = conversation_id inEnvelope,
          env_sender = \<lparr>sender_speakerUri = this_speakerUri ag,
                        sender_serviceUrl = Some (this_serviceUrl ag)\<rparr>,
          events = concat (map (eventResponse ag inEnvelope) (events inEnvelope))\<rparr>
   \<and> length (eventResponse ag inEnvelope ev) \<le> 1
   \<and> (\<exists>o1 o2 o12.
         fst (processEnvelope ag (inEnvelope\<lparr>events := es1\<rparr>) c) = Inr o1
         \<and> fst (processEnvelope ag (inEnvelope\<lparr>events := es2\<rparr>) c) = Inr o2
         \<and> fst (processEnvelope ag (inEnvelope\<lparr>events := es1 @ es2\<rparr>) c) = Inr o12
         \<and> events o12 = events o1 @ events o2)
   \<and> (events inEnvelope = [] \<longrightarrow>
        (\<exists>out. fst (processEnvelope ag inEnvelope c) = Inr out \<and> events out = []))"
  by (simp add: processEnvelope_eq eventResponse_events_update eventResponse_def)

theorem outbound_envelope_witness:
  "fst (processEnvelope polly (user_envelope []) []) = Inr (polly_envelope [])
   \<and> fst (processEnvelope polly
        (user_envelope [text_event None [''A''], text_event None [''B''],
           text_event None [''C'']]) []) =
       Inr (polly_envelope [say (parrot @ '' A'') (Some 1), say (parrot @ '' B'') (Some 1),
              say (parrot @ '' C'') (Some 1)])"
proof -
  have empty: "events (user_envelope []) = []"
    by (simp add: user_envelope_def)
  have "\<exists>out. fst (processEnvelope polly (user_envelope []) []) = Inr out \<and> events out = []"
    using outbound_envelope [where ag = polly and inEnvelope = "user_envelope []"
        and c = "[]" and ev = "text_event None []" and ?es1.0 = "[]" and ?es2.0 = "[]"] empty
    by blast
  moreover have "fst (processEnvelope polly (user_envelope []) []) = Inr (polly_envelope [])"
    by (simp add: sample_defs polly_envelope_def processEnvelope_def)
  moreover have "fst (processEnvelope polly
        (user_envelope [text_event None [''A''], text_event None [''B''],
           text_event None [''C'']]) []) =
       Inr (polly_envelope [say (parrot @ '' A'') (Some 1), say (parrot @ '' B'') (Some 1),
              say (parrot @ '' C'') (Some 1)])"
    by (simp add: sample_defs polly_envelope_def processEnvelope_def addressedToMe_def
        isUtteranceEvent_def handleParrotUtterance_def handleParrotUtterance_try_def
        parrot_response_def createTextUtterance_def join_values_def value_text_def
        reply_to_def)
  ultimately show ?thesis by simp
qed

section \<open>Manifest requests\<close>

text \<open>
  C4. For a \<open>getManifests\<close> event addressed to the agent the loop appends exactly one
  event of type \<open>publishManifests\<close>, addressed to the speaker URI of the inbound sender,
  whose \<open>servicingManifests\<close> is the one-element list of the serialized manifest of the
  agent; an envelope holding only that event is answered by exactly that event.
\<close>

theorem getManifests_reply:
  assumes "addressedToMe ag ev" and "eventType ev = ''getManifests''"
  shows "processEvents ag inEnvelope (ev # rest) acc c =
           processEvents ag inEnvelope rest
             (acc @ [PlainEvent
                \<lparr>pe_eventType = ''publishManifests'',
                 pe_to = \<lparr>to_speakerUri = Some (sender_speakerUri (env_sender inEnvelope)),
                          to_serviceUrl = None\<rparr>,
                 pe_servicingManifests = [toObject (manifest ag)]\<rparr>]) c
         \<and> (\<exists>out. fst (processEnvelope ag (inEnvelope\<lparr>events := [ev]\<rparr>) c) = Inr out
               \<and> events out =
                   [PlainEvent
                      \<lparr>pe_eventType = ''publishManifests'',
                       pe_to = \<lparr>to_speakerUri = Some (sender_speakerUri (env_sender inEnvelope)),
                                to_serviceUrl = None\<rparr>,
                       pe_servicingManifests = [toObject (manifest ag)]\<rparr>])"
  using assms
  by (simp add: processEnvelope_def isUtteranceEvent_def publishManifests_def)

theorem getManifests_reply_witness:
  "fst (processEnvelope polly (user_envelope [bare_event ''getManifests'' None]) []) =
     Inr (polly_envelope [polly_manifests])"
  using getManifests_reply [where ag = polly and ev = "bare_event ''getManifests'' None"
      and inEnvelope = "user_envelope []" and rest = "[]" and acc = "[]" and c = "[]"]
  by (simp add: sample_defs polly_envelope_def polly_manifests_def addressedToMe_def
      toObject_def processEnvelope_def isUtteranceEvent_def publishManifests_def)

section \<open>Failures\<close>

text \<open>
  C5. \<open>processEnvelope\<close> always returns an envelope and \<open>_handleParrotUtterance\<close> always
  resolves: whenever the \<open>try\<close> block throws, the \<open>catch\<close> block logs the error and
  returns the utterance with the fixed confused-chirp text, addressed to the speaker URI
  of the inbound sender, without confidence.
\<close>

theorem never_raises:
  "(\<exists>out c'. processEnvelope ag inEnvelope c = (Inr out, c'))
   \<and> (\<exists>r c'. handleParrotUtterance ag ev inEnvelope c = (Inr r, c'))
   \<and> (handleParrotUtterance_try ag ev inEnvelope = Inl err \<longrightarrow>
        handleParrotUtterance ag ev inEnvelope c =
          (Inr (TextUtterance
             \<lparr>utt_speakerUri = this_speakerUri ag, utt_text = confused_text,
              utt_to = Some (reply_to inEnvelope), utt_confidence = None\<rparr>),
           c @ [(''Error in parrot utterance handling:'', err)]))"
proof (intro conjI impI)
  show "\<exists>out c'. processEnvelope ag inEnvelope c = (Inr out, c')"
    by (simp add: processEnvelope_eq)
  show "\<exists>r c'. handleParrotUtterance ag ev inEnvelope c = (Inr r, c')"
    by (simp add: handleParrotUtterance_eq)
next
  assume "handleParrotUtterance_try ag ev inEnvelope = Inl err"
  then show "handleParrotUtterance ag ev inEnvelope c =
          (Inr (TextUtterance
             \<lparr>utt_speakerUri = this_speakerUri ag, utt_text = confused_text,
              utt_to = Some (reply_to inEnvelope), utt_confidence = None\<rparr>),
           c @ [(''Error in parrot utterance handling:'', err)])"
    by (simp add: handleParrotUtterance_def error_response_def createTextUtterance_def)
qed

theorem never_raises_witness:
  "handleParrotUtterance_try polly (bare_event ''utterance'' None) (user_envelope []) =
     Inl TypeError
   \<and> handleParrotUtterance polly (bare_event ''utterance'' None) (user_envelope []) [] =
       (Inr (say confused_text None), [(''Error in parrot utterance handling:'', TypeError)])"
  using never_raises [where ag = polly and ev = "bare_event ''utterance'' None"
      and inEnvelope = "user_envelope []" and c = "[]" and err = TypeError]
  by (simp add: sample_defs handleParrotUtterance_try_def reply_to_def)

section \<open>Reply addressing\<close>

text \<open>
  C7. Every event of the envelope returned by \<open>processEnvelope\<close> carries a \<open>to\<close> field,
  so none is a broadcast, and that field names the speaker URI of the sender of the
  inbound envelope and no service URL, so it names no other party.
\<close>

theorem reply_to_sender:
  assumes "processEnvelope ag inEnvelope c = (Inr out, c')"
  shows "\<forall>r \<in> set (events out).
           \<exists>t. out_to r = Some t
             \<and> to_speakerUri t = Some (sender_speakerUri (env_sender inEnvelope))
             \<and> to_serviceUrl t = None"
proof
  fix r
  assume "r \<in> set (events out)"
  with assms obtain ev where "r \<in> set (eventResponse ag inEnvelope ev)"
    by (auto simp: processEnvelope_eq)
  then have "out_to r = Some (reply_to inEnvelope)"
    by (rule eventResponse_to)
  then show "\<exists>t. out_to r = Some t
             \<and> to_speakerUri t = Some (sender_speakerUri (env_sender inEnvelope))
             \<and> to_serviceUrl t = None"
    by (simp add: reply_to_def)
qed

theorem reply_to_sender_witness:
  "processEnvelope polly (user_envelope mixed_events) [] =
     (Inr (polly_envelope [say (parrot @ '' hi'') (Some 1), say chirp_text None,
             say confused_text None, polly_manifests]),
      [(''Error in parrot utterance handling:'', TypeError)])
   \<and> out_to (say (parrot @ '' hi'') (Some 1)) = Some to_alice
   \<and> out_to (say chirp_text None) = Some to_alice
   \<and> out_to (say confused_text None) = Some to_alice
   \<and> out_to polly_manifests = Some to_alice"
proof -
  have run: "processEnvelope polly (user_envelope mixed_events) [] =
     (Inr (polly_envelope [say (parrot @ '' hi'') (Some 1), say chirp_text None,
             say confused_text None, polly_manifests]),
      [(''Error in parrot utterance handling:'', TypeError)])"
    by (simp add: sample_defs mixed_events_def polly_envelope_def polly_manifests_def
        processEnvelope_def addressedToMe_def isUtteranceEvent_def handleParrotUtterance_def
        handleParrotUtterance_try_def parrot_response_def chirp_response_def
        error_response_def createTextUtterance_def join_values_def value_text_def
        reply_to_def publishManifests_def toObject_def)
  show ?thesis
    using run reply_to_sender [OF run]
    by (simp add: polly_envelope_def user_envelope_def to_alice_def say_def
        polly_manifests_def)
qed

text \<open>
  C9. The \<open>to\<close> field of the echo response, of the missing-text response, of the error
  response and of the \<open>publishManifests\<close> event is exactly
  \<open>{ speakerUri: inEnvelope.sender.speakerUri }\<close>: the service URL of the inbound
  sender is never copied into it, whatever the inbound sender carries. Hence the \<open>to\<close>
  fields of the events of a returned envelope are all equal to that value.
\<close>

theorem reply_omits_serviceUrl:
  "out_to (parrot_response ag inEnvelope originalText) =
     Some \<lparr>to_speakerUri = Some (sender_speakerUri (env_sender inEnvelope)),
           to_serviceUrl = None\<rparr>
   \<and> out_to (chirp_response ag inEnvelope) =
     Some \<lparr>to_speakerUri = Some (sender_speakerUri (env_sender inEnvelope)),
           to_serviceUrl = None\<rparr>
   \<and> out_to (error_response ag inEnvelope) =
     Some \<lparr>to_speakerUri = Some (sender_speakerUri (env_sender inEnvelope)),
           to_serviceUrl = None\<rparr>
   \<and> out_to (publishManifests ag inEnvelope) =
     Some \<lparr>to_speakerUri = Some (sender_speakerUri (env_sender inEnvelope)),
           to_serviceUrl = None\<rparr>
   \<and> (\<forall>out c'. processEnvelope ag inEnvelope c = (Inr out, c') \<longrightarrow>
        map out_to (events out) =
          replicate (length (events out))
            (Some \<lparr>to_speakerUri = Some (sender_speakerUri (env_sender inEnvelope)),
                   to_serviceUrl = None\<rparr>))"
proof -
  have "map out_to (concat (map (eventResponse ag inEnvelope) es)) =
          replicate (length (concat (map (eventResponse ag inEnvelope) es)))
            (Some (reply_to inEnvelope))" for es
    by (induction es)
      (simp_all add: eventResponse_def utterance_reply_to publishManifests_def reply_to_def
        replicate_app_Cons_same)
  then show ?thesis
    by (auto simp: processEnvelope_eq parrot_response_def chirp_response_def
        error_response_def createTextUtterance_def publishManifests_def reply_to_def)
qed

theorem reply_omits_serviceUrl_witness:
  "sender_serviceUrl (env_sender (user_envelope mixed_events)) = Some ''https://user.example/''
   \<and> map out_to [say (parrot @ '' hi'') (Some 1), say chirp_text None,
             say confused_text None, polly_manifests] =
       replicate 4 (Some \<lparr>to_speakerUri = Some ''tag:user.example,2025:alice'',
                           to_serviceUrl = None\<rparr>)"
proof -
  have run: "processEnvelope polly (user_envelope mixed_events) [] =
     (Inr (polly_envelope [say (parrot @ '' hi'') (Some 1), say chirp_text None,
             say confused_text None, polly_manifests]),
      [(''Error in parrot utterance handling:'', TypeError)])"
    by (simp add: sample_defs mixed_events_def polly_envelope_def polly_manifests_def
        processEnvelope_def addressedToMe_def isUtteranceEvent_def handleParrotUtterance_def
        handleParrotUtterance_try_def parrot_response_def chirp_response_def
        error_response_def createTextUtterance_def join_values_def value_text_def
        reply_to_def publishManifests_def toObject_def)
  show ?thesis
    using reply_omits_serviceUrl [where ag = polly and inEnvelope = "user_envelope mixed_events"
        and c = "[]" and originalText = "''hi''"] run
    by (simp add: polly_envelope_def user_envelope_def eval_nat_numeral)
qed

section \<open>Repeated calls\<close>

text \<open>
  C8. The envelope returned by \<open>processEnvelope\<close> for an agent and an inbound envelope
  does not depend on the console: a second call, made after the first has written its
  log, returns the same envelope, with the same events in the same order. Only the
  console grows, by the log of the call.
\<close>

theorem same_envelope_twice:
  "fst (processEnvelope ag inEnvelope (snd (processEnvelope ag inEnvelope c))) =
     fst (processEnvelope ag inEnvelope c)
   \<and> fst (processEnvelope ag inEnvelope c1) = fst (processEnvelope ag inEnvelope c2)
   \<and> snd (processEnvelope ag inEnvelope c) = c @ concat (map (eventLog ag inEnvelope) (events inEnvelope))"
  by (simp add: processEnvelope_eq)

theorem same_envelope_twice_witness:
  "fst (processEnvelope polly (user_envelope mixed_events)
          (snd (processEnvelope polly (user_envelope mixed_events) []))) =
     Inr (polly_envelope [say (parrot @ '' hi'') (Some 1), say chirp_text None,
             say confused_text None, polly_manifests])
   \<and> snd (processEnvelope polly (user_envelope mixed_events)
          (snd (processEnvelope polly (user_envelope mixed_events) []))) =
       [(''Error in parrot utterance handling:'', TypeError),
        (''Error in parrot utterance handling:'', TypeError)]"
proof -
  have run: "processEnvelope polly (user_envelope mixed_events) c =
     (Inr (polly_envelope [say (parrot @ '' hi'') (Some 1), say chirp_text None,
             say confused_text None, polly_manifests]),
      c @ [(''Error in parrot utterance handling:'', TypeError)])" for c
    by (simp add: sample_defs mixed_events_def polly_envelope_def polly_manifests_def
        processEnvelope_def addressedToMe_def isUtteranceEvent_def handleParrotUtterance_def
        handleParrotUtterance_try_def parrot_response_def chirp_response_def
        error_response_def createTextUtterance_def join_values_def value_text_def
        reply_to_def publishManifests_def toObject_def)
  show ?thesis
    using same_envelope_twice [where ag = polly and inEnvelope = "user_envelope mixed_events"
        and c = "[]"]
    by (simp add: run)
qed

section \<open>The two implementations\<close>

text \<open>
  C10. On an inbound envelope all of whose events are utterance events, the alternate
  implementation, which builds the outbound envelope first and appends to its events,
  returns what the primary implementation returns (the same envelope, the same console).
  This does not extend to \<open>getManifests\<close>: there is an inbound envelope, holding one such
  event, for which the primary implementation returns an event and the alternate none.
\<close>

theorem alternate_agrees_on_utterances:
  "((\<forall>ev \<in> set (events inEnvelope). isUtteranceEvent ev) \<longrightarrow>
      processEnvelope_alt ag inEnvelope c = processEnvelope ag inEnvelope c)
   \<and> (\<exists>other out out'.
         fst (processEnvelope ag other c) = Inr out
         \<and> fst (processEnvelope_alt ag other c) = Inr out'
         \<and> events out \<noteq> events out')"
proof (intro conjI impI)
  assume utt: "\<forall>ev \<in> set (events inEnvelope). isUtteranceEvent ev"
  have same: "concat (map (\<lambda>ev. if isUtteranceEvent ev then eventResponse ag inEnvelope ev
                         else []) (events inEnvelope)) =
             concat (map (eventResponse ag inEnvelope) (events inEnvelope))"
    by (rule arg_cong [where f = concat]) (use utt in simp)
  show "processEnvelope_alt ag inEnvelope c = processEnvelope ag inEnvelope c"
    by (simp add: processEnvelope_alt_def processEvents_alt_eq processEnvelope_eq same)
next
  let ?other = "\<lparr>schema_version = [], conversation_id = [],
                  env_sender = \<lparr>sender_speakerUri = [], sender_serviceUrl = None\<rparr>,
                  events = [bare_event ''getManifests'' None]\<rparr>"
  have "fst (processEnvelope ag ?other c) =
          Inr \<lparr>schema_version = [], conversation_id = [],
               env_sender = \<lparr>sender_speakerUri = this_speakerUri ag,
                             sender_serviceUrl = Some (this_serviceUrl ag)\<rparr>,
               events = [publishManifests ag ?other]\<rparr>"
    by (simp add: processEnvelope_def bare_event_def addressedToMe_def isUtteranceEvent_def)
  moreover have "fst (processEnvelope_alt ag ?other c) =
          Inr \<lparr>schema_version = [], conversation_id = [],
               env_sender = \<lparr>sender_speakerUri = this_speakerUri ag,
                             sender_serviceUrl = Some (this_serviceUrl ag)\<rparr>,
               events = []\<rparr>"
    by (simp add: processEnvelope_alt_def bare_event_def addressedToMe_def
        isUtteranceEvent_def)
  ultimately show "\<exists>other out out'.
         fst (processEnvelope ag other c) = Inr out
         \<and> fst (processEnvelope_alt ag other c) = Inr out'
         \<and> events out \<noteq> events out'"
    by (intro exI [of _ ?other]) simp
qed

theorem alternate_agrees_on_utterances_witness:
  "isUtteranceEvent (text_event None [''hi'']) \<and> isUtteranceEvent no_text_event
   \<and> isUtteranceEvent (bare_event ''utterance'' None)
   \<and> processEnvelope_alt polly
       (user_envelope [text_event None [''hi''], no_text_event, bare_event ''utterance'' None])
       [] =
     (Inr (polly_envelope [say (parrot @ '' hi'') (Some 1), say chirp_text None,
             say confused_text None]),
      [(''Error in parrot utterance handling:'', TypeError)])"
proof -
  have utt: "\<forall>ev \<in> set (events (user_envelope
      [text_event None [''hi''], no_text_event, bare_event ''utterance'' None])).
      isUtteranceEvent ev"
    by (simp add: sample_defs isUtteranceEvent_def)
  have run: "processEnvelope polly
       (user_envelope [text_event None [''hi''], no_text_event, bare_event ''utterance'' None])
       [] =
     (Inr (polly_envelope [say (parrot @ '' hi'') (Some 1), say chirp_text None,
             say confused_text None]),
      [(''Error in parrot utterance handling:'', TypeError)])"
    by (simp add: sample_defs polly_envelope_def
        processEnvelope_def addressedToMe_def isUtteranceEvent_def handleParrotUtterance_def
        handleParrotUtterance_try_def parrot_response_def chirp_response_def
        error_response_def createTextUtterance_def join_values_def value_text_def
        reply_to_def)
  show ?thesis
    using alternate_agrees_on_utterances [where ag = polly and c = "[]" and inEnvelope =
        "user_envelope [text_event None [''hi''], no_text_event,
           bare_event ''utterance'' None]"] utt run
    by (simp add: user_envelope_def)
qed

end
